theory Spec2Isabelle
  imports Main
begin

section \<open>The values of \<^verbatim>\<open>webpack.config.js\<close>\<close>

text \<open>
  The module builds one nested object literal. Its values are strings, booleans, regular
  expression literals (kept as their source text), arrays, plain objects (association lists,
  in the order the literal writes the keys), instances of plugin classes
  (\<^verbatim>\<open>new C(args)\<close>) and values returned by functions of other packages
  (\<^verbatim>\<open>autoprefixer(...)\<close>, \<^verbatim>\<open>ExtractTextPlugin.extract(...)\<close>). A \<open>string\<close> is the
  list of the code units of the JavaScript string.
\<close>

datatype jsval =
    JUndefined
  | JBool bool
  | JStr string
  | JRegExp string
  | JArr "jsval list"
  | JObj "(string \<times> jsval) list"
  | JNew string "jsval list"
  | JCall string "jsval list"

text \<open>Property access \<^verbatim>\<open>o.k\<close>: a key the object does not have reads as \<^verbatim>\<open>undefined\<close>.\<close>

fun js_get :: "jsval \<Rightarrow> string \<Rightarrow> jsval" where
  "js_get (JObj kvs) k = (case map_of kvs k of Some v \<Rightarrow> v | None \<Rightarrow> JUndefined)"
| "js_get v k = JUndefined"

text \<open>
  \<^verbatim>\<open>String.prototype.substring(start, end)\<close> on indices that are natural numbers: both
  are clamped to the length, and swapped when \<open>start\<close> is the larger.
\<close>

definition substring :: "string \<Rightarrow> nat \<Rightarrow> nat \<Rightarrow> string" where
  "substring s start end' =
     (let a = min start (length s); b = min end' (length s)
      in take (max a b - min a b) (drop (min a b) s))"

text \<open>
  \<^verbatim>\<open>JSON.stringify\<close> on the literals the module passes to it: strings, booleans and
  objects of them. A double quote or a backslash inside a string is escaped.
\<close>

datatype json = JsonStr string | JsonBool bool | JsonObj "(string \<times> json) list"

definition json_quote :: "string \<Rightarrow> string" where
  "json_quote s =
     CHR 0x22 # concat (map (\<lambda>c. if c = CHR 0x22 \<or> c = CHR 0x5C then [CHR 0x5C, c] else [c]) s)
       @ [CHR 0x22]"

fun commas :: "string list \<Rightarrow> string" where
  "commas [] = []"
| "commas [x] = x"
| "commas (x # y # zs) = x @ '','' @ commas (y # zs)"

fun JSON_stringify :: "json \<Rightarrow> string"
and JSON_members :: "(string \<times> json) list \<Rightarrow> string list" where
  "JSON_stringify (JsonStr s) = json_quote s"
| "JSON_stringify (JsonBool b) = (if b then ''true'' else ''false'')"
| "JSON_stringify (JsonObj kvs) = ''{'' @ commas (JSON_members kvs) @ ''}''"
| "JSON_members [] = []"
| "JSON_members ((k, v) # kvs) = (json_quote k @ '':'' @ JSON_stringify v) # JSON_members kvs"

text \<open>
  \<^verbatim>\<open>path.join(__dirname, p)\<close> on a POSIX host, for the relative paths of this module
  (none has a \<^verbatim>\<open>.\<close> or \<^verbatim>\<open>..\<close> segment or a doubled separator): \<^verbatim>\<open>__dirname\<close> is
  absolute and normalised, so the two are joined by one separator.
\<close>

definition path_join :: "string \<Rightarrow> string \<Rightarrow> string" where
  "path_join d p =
     (if d = [] then p else if last d = CHR ''/'' then d @ p else d @ ''/'' @ p)"

section \<open>The host and the process\<close>

text \<open>
  What the module reads from outside: its directory, the parsed \<^verbatim>\<open>package.json\<close>, and
  what a synchronous subprocess gives for a command line, either its standard
  output as a string or the error \<^verbatim>\<open>execSync\<close> throws (non-zero exit status, missing
  tool, not a repository).
\<close>

datatype error = Error string

record host =
  dirname :: string
  pkg :: jsval
  exec_outcome :: "string \<Rightarrow> error + string"

text \<open>
  What a Node process does to the outside world besides running subprocesses: it reads
  files and it makes network calls. \<^verbatim>\<open>require\<close> reads the file of the module it is given;
  this module has no operation that makes a network call.
\<close>

datatype io_event = FileRead string | NetworkCall string

text \<open>
  The state the module reads and writes: the process environment, the command lines
  handed to \<^verbatim>\<open>childProcess.execSync\<close> so far, the file reads and network calls made so
  far, and \<^verbatim>\<open>module.exports\<close>.
\<close>

record node =
  env :: "string \<rightharpoonup> string"
  execs :: "string list"
  io_log :: "io_event list"
  module_exports :: jsval

definition execSync :: "host \<Rightarrow> string \<Rightarrow> node \<Rightarrow> (error + string) \<times> node" where
  "execSync h cmd n = (exec_outcome h cmd, n\<lparr>execs := execs n @ [cmd]\<rparr>)"

text \<open>
  A variable of \<^verbatim>\<open>process.env\<close> is \<^verbatim>\<open>undefined\<close> (\<open>None\<close>) or a string; it is truthy
  when it is a non-empty string.
\<close>

definition truthy :: "string option \<Rightarrow> bool" where
  "truthy v = (case v of None \<Rightarrow> False | Some s \<Rightarrow> s \<noteq> [])"

text \<open>
  \<^verbatim>\<open>v || rest\<close>: a truthy \<open>v\<close> is the value and \<open>rest\<close> is not evaluated; otherwise the
  value is whatever \<open>rest\<close> evaluates to.
\<close>

definition js_or ::
  "string option \<Rightarrow> (node \<Rightarrow> (error + string) \<times> node) \<Rightarrow> node \<Rightarrow> (error + string) \<times> node" where
  "js_or v rest n =
     (case v of
        None \<Rightarrow> rest n
      | Some s \<Rightarrow> if s \<noteq> [] then (Inr s, n) else rest n)"

text \<open>Line 18: \<^verbatim>\<open>const TARGET = process.env.npm_lifecycle_event\<close>.\<close>

definition TARGET :: "node \<Rightarrow> string option" where
  "TARGET n = env n ''npm_lifecycle_event''"

text \<open>Lines 19 to 22.\<close>

record paths =
  app :: string
  build :: string

definition PATHS :: "host \<Rightarrow> paths" where
  "PATHS h = \<lparr>app = path_join (dirname h) ''app'', build = path_join (dirname h) ''build''\<rparr>"

text \<open>
  Lines 24 to 35. \<open>VERSION_try\<close> is the body of the \<^verbatim>\<open>try\<close> block; \<open>VERSION\<close> is the
  whole function expression, applied once: the \<^verbatim>\<open>catch\<close> replaces any error by
  \<^verbatim>\<open>'unknown'\<close>.
\<close>

definition VERSION_try :: "host \<Rightarrow> node \<Rightarrow> (error + string) \<times> node" where
  "VERSION_try h n =
     js_or (env n ''SOURCE_VERSION'')
       (\<lambda>n1. js_or (env n1 ''SHA'') (execSync h ''git rev-parse HEAD'') n1) n"

definition VERSION :: "host \<Rightarrow> node \<Rightarrow> string \<times> node" where
  "VERSION h n =
     (case VERSION_try h n of
        (Inl e, n') \<Rightarrow> (''unknown'', n')
      | (Inr v, n') \<Rightarrow> (v, n'))"

text \<open>
  Line 38: \<^verbatim>\<open>process.env.BABEL_ENV = TARGET\<close>. Node converts a value assigned to a
  variable of \<^verbatim>\<open>process.env\<close> to a string, \<^verbatim>\<open>undefined\<close> to \<^verbatim>\<open>'undefined'\<close>.
\<close>

definition env_string :: "string option \<Rightarrow> string" where
  "env_string v = (case v of None \<Rightarrow> ''undefined'' | Some s \<Rightarrow> s)"

definition set_BABEL_ENV :: "string option \<Rightarrow> node \<Rightarrow> node" where
  "set_BABEL_ENV t n = n\<lparr>env := (env n)(''BABEL_ENV'' \<mapsto> env_string t)\<rparr>"

section \<open>The configuration objects\<close>

text \<open>
  Lines 41 to 153: the configuration shared by all targets. \<open>v\<close> is the value of the
  constant \<^verbatim>\<open>VERSION\<close>.
\<close>

definition common :: "host \<Rightarrow> string \<Rightarrow> jsval" where
  "common h v = JObj [
     (''entry'', JObj [(''app'', JStr (app (PATHS h)))]),
     (''resolve'', JObj [(''extensions'', JArr [JStr [], JStr ''.js'', JStr ''.jsx''])]),
     (''output'', JObj [
        (''path'', JStr (build (PATHS h))),
        (''filename'', JStr ''[name].js'')]),
     (''module'', JObj [
        (''noParse'', JArr [JRegExp (''autoit'' @ CHR 0x5C # ''.js$'')]),
        (''preLoaders'', JArr [
           JObj [
             (''test'', JRegExp (CHR 0x5C # ''.jsx?$'')),
             (''loaders'', JArr [JStr ''eslint'']),
             (''include'', JStr (app (PATHS h)))]]),
        (''loaders'', JArr [
           JObj [
             (''test'', JRegExp (CHR 0x5C # ''.jsx?$'')),
             (''loaders'', JArr [JStr ''babel?cacheDirectory'', JStr ''unlazy'']),
             (''include'', JStr (app (PATHS h)))],
           JObj [
             (''test'', JRegExp (CHR 0x5C # ''.(ttf|eot|svg|woff(2)?)('' @ CHR 0x5C # ''?v=.+)?$'')),
             (''loaders'', JArr [JStr ''file?name=fonts/[name].[ext]'']),
             (''include'', JArr [
                JStr (path_join (dirname h) ''node_modules/font-awesome/fonts/''),
                JStr (path_join (dirname h) ''node_modules/katex/dist/fonts/'')])],
           JObj [
             (''test'', JRegExp (CHR 0x5C # ''.(ttf|eot|svg|woff(2)?)('' @ CHR 0x5C # ''?[a-z0-9]+)?$'')),
             (''loaders'', JArr [JStr ''file?name=[path][name].[ext]&context=./app'']),
             (''include'', JStr (app (PATHS h)))],
           JObj [
             (''test'', JRegExp (CHR 0x5C # ''.json$'')),
             (''loaders'', JArr [JStr ''file?name=[path][name].[ext]&context=./node_modules''])],
           JObj [
             (''test'', JRegExp (CHR 0x5C # ''.png$'')),
             (''loaders'', JArr [JStr ''file?name=[path][name].[ext]&context=./node_modules'']),
             (''include'', JStr (path_join (dirname h) ''node_modules/emojione/''))]])]),
     (''postcss'', JArr [
        JCall ''autoprefixer'' [JObj [(''browsers'', JArr [JStr ''last 2 versions''])]]]),
     (''node'', JObj [(''fs'', JStr ''empty'')]),
     (''plugins'', JArr [
        JNew ''HtmlWebpackPlugin'' [JObj [
          (''template'', JStr ''index.ejs''),
          (''title'', js_get (pkg h) ''name''),
          (''favicon'', JStr ''app/favicon.ico''),
          (''version'', JStr (substring v 0 7)),
          (''appMountId'', JStr ''app'')]],
        JNew ''OfflinePlugin'' [JObj [
          (''caches'', JStr ''all''),
          (''scope'', JStr ''/''),
          (''version'', JStr (substring v 0 7)),
          (''ServiceWorker'', JObj [(''cache_name'', JStr ''monod'')]),
          (''AppCache'', JObj [
             (''FALLBACK'', JObj [(''/'', JStr ''/'')]),
             (''NETWORK'', JArr [JStr ''/documents'', JStr ''*''])])]]])]"

text \<open>Lines 157 to 178: the object merged onto \<open>common\<close> for development.\<close>

definition dev_overlay :: "host \<Rightarrow> jsval" where
  "dev_overlay h = JObj [
     (''devtool'', JStr ''eval-source-map''),
     (''entry'', JArr [
        JStr ''react-hot-loader/patch'',
        JStr ''webpack-dev-server/client?http://localhost:4000'',
        JStr ''webpack/hot/only-dev-server'',
        JStr (app (PATHS h))]),
     (''module'', JObj [
        (''loaders'', JArr [
           JObj [
             (''test'', JRegExp (CHR 0x5C # ''.s?css$'')),
             (''loaders'', JArr [JStr ''style'', JStr ''css'', JStr ''postcss'', JStr ''sass''])]])]),
     (''plugins'', JArr [JNew ''webpack.HotModuleReplacementPlugin'' []])]"

text \<open>Lines 183 to 235: the object merged onto \<open>common\<close> for the production build.\<close>

definition build_overlay :: "host \<Rightarrow> jsval" where
  "build_overlay h = JObj [
     (''debug'', JBool False),
     (''devtool'', JStr ''source-map''),
     (''output'', JObj [
        (''path'', JStr (build (PATHS h))),
        (''filename'', JStr ''[name].[chunkhash].js''),
        (''chunkFilename'', JStr ''[chunkhash].js'')]),
     (''module'', JObj [
        (''loaders'', JArr [
           JObj [
             (''test'', JRegExp (CHR 0x5C # ''.(css|scss)$'')),
             (''loader'', JCall ''ExtractTextPlugin.extract'' [
                JStr ''style'',
                JStr (''css?''
                  @ JSON_stringify (JsonObj [(''discardComments'', JsonObj [(''removeAll'', JsonBool True)])])
                  @ ''!postcss!sass'')])]])]),
     (''plugins'', JArr [
        JNew ''CleanPlugin'' [JArr [JStr (build (PATHS h))]],
        JNew ''webpack.DefinePlugin'' [JObj [
          (''process.env'', JObj [(''NODE_ENV'', JStr (JSON_stringify (JsonStr ''production'')))])]],
        JNew ''webpack.optimize.DedupePlugin'' [],
        JNew ''webpack.optimize.OccurrenceOrderPlugin'' [],
        JNew ''webpack.optimize.UglifyJsPlugin'' [JObj [
          (''output'', JObj [(''comments'', JBool False)]),
          (''compress'', JObj [(''warnings'', JBool False)])]],
        JNew ''ExtractTextPlugin'' [
          JStr ''[name].[chunkhash].css'',
          JObj [(''allChunks'', JBool True)]],
        JNew ''WebpackRobots'' []])]"

section \<open>Merging\<close>

text \<open>
  Modelled from the spec: \<^verbatim>\<open>merge\<close> is the function the package \<^verbatim>\<open>webpack-merge\<close>
  exports (line 2); its code is not part of this repository. The specification's words:
  overlay values are deep-merged onto the base, nested lists are concatenated rather than
  replaced, and scalar fields in the overlay take precedence over the base. So two arrays
  give the base's elements followed by the overlay's, two objects are merged key by key
  (the base's keys in their order, then the keys only the overlay has), and in every other
  case the overlay's value stands.
\<close>

fun merge :: "jsval \<Rightarrow> jsval \<Rightarrow> jsval"
and merge_fields :: "(string \<times> jsval) list \<Rightarrow> (string \<times> jsval) list \<Rightarrow> (string \<times> jsval) list" where
  "merge (JArr a) (JArr b) = JArr (a @ b)"
| "merge (JObj a) (JObj b) =
     JObj (merge_fields a b @ filter (\<lambda>(k, w). map_of a k = None) b)"
| "merge a b = b"
| "merge_fields [] b = []"
| "merge_fields ((k, v) # a) b =
     (case map_of b k of None \<Rightarrow> (k, v) | Some w \<Rightarrow> (k, merge v w)) # merge_fields a b"

section \<open>Evaluating the module\<close>

text \<open>
  The two conditions of lines 156 and 182: \<^verbatim>\<open>TARGET === 'dev' || !TARGET\<close> and
  \<^verbatim>\<open>TARGET === 'build'\<close>.
\<close>

definition dev_selected :: "string option \<Rightarrow> bool" where
  "dev_selected t = (t = Some ''dev'' \<or> \<not> truthy t)"

definition build_selected :: "string option \<Rightarrow> bool" where
  "build_selected t = (t = Some ''build'')"

text \<open>
  The module's statements in their order: the constants, the assignment to
  \<^verbatim>\<open>process.env.BABEL_ENV\<close>, the common configuration, and the two \<^verbatim>\<open>if\<close> statements
  that assign \<^verbatim>\<open>module.exports\<close>.
\<close>

definition webpack_config :: "host \<Rightarrow> node \<Rightarrow> node" where
  "webpack_config h n =
     (let t = TARGET n;
          (v, n1) = VERSION h n;
          n2 = set_BABEL_ENV t n1;
          c = common h v;
          n3 = (if dev_selected t then n2\<lparr>module_exports := merge c (dev_overlay h)\<rparr> else n2);
          n4 = (if build_selected t then n3\<lparr>module_exports := merge c (build_overlay h)\<rparr> else n3)
      in n4)"

text \<open>
  Lines 38 to 153 on their own: the statements that build the base configuration, given
  the constants \<^verbatim>\<open>TARGET\<close> and \<^verbatim>\<open>VERSION\<close>. They yield the object \<open>common\<close> and the
  state after the assignment of line 38.
\<close>

definition base_config :: "host \<Rightarrow> string option \<Rightarrow> string \<Rightarrow> node \<Rightarrow> jsval \<times> node" where
  "base_config h t v n = (common h v, set_BABEL_ENV t n)"

text \<open>
  Lines 1 to 15: the module's \<^verbatim>\<open>require\<close> calls. \<open>r\<close> is what the module loader gives for
  a path: the module's value, or the error \<^verbatim>\<open>require\<close> throws (the file is missing or
  does not parse). No call stands inside a \<^verbatim>\<open>try\<close>, so the first error ends the
  evaluation of the module. \<^verbatim>\<open>path\<close> (line 1) and \<^verbatim>\<open>child_process\<close> (line 4) are built
  into the runtime: they read no file and cannot be missing. Of the values loaded, only
  that of \<^verbatim>\<open>./package.json\<close> is inspected.
\<close>

definition js_require ::
  "(string \<Rightarrow> error + jsval) \<Rightarrow> string \<Rightarrow> node \<Rightarrow> (error + jsval) \<times> node" where
  "js_require r m n = (r m, n\<lparr>io_log := io_log n @ [FileRead m]\<rparr>)"

definition required_packages :: "string list" where
  "required_packages =
     [''webpack-merge'', ''webpack'', ''autoprefixer'', ''html-webpack-plugin'',
      ''clean-webpack-plugin'', ''extract-text-webpack-plugin'', ''offline-plugin'',
      ''@tanepiper/webpack-robotstxt'']"

fun require_each :: "(string \<Rightarrow> error + jsval) \<Rightarrow> string list \<Rightarrow> node \<Rightarrow> error option \<times> node" where
  "require_each r [] n = (None, n)"
| "require_each r (m # ms) n =
     (case js_require r m n of
        (Inl e, n') \<Rightarrow> (Some e, n')
      | (Inr v, n') \<Rightarrow> require_each r ms n')"

text \<open>
  The whole file: the \<^verbatim>\<open>require\<close> calls, then the statements of \<open>webpack_config\<close> with
  the loaded \<^verbatim>\<open>package.json\<close>. The result is the error that ended the evaluation, if
  any, and the state it left.
\<close>

definition webpack_config_js ::
  "(string \<Rightarrow> error + jsval) \<Rightarrow> string \<Rightarrow> (string \<Rightarrow> error + string) \<Rightarrow> node
     \<Rightarrow> error option \<times> node" where
  "webpack_config_js r d ex n =
     (case require_each r required_packages n of
        (Some e, n1) \<Rightarrow> (Some e, n1)
      | (None, n1) \<Rightarrow>
          (case js_require r ''./package.json'' n1 of
             (Inl e, n2) \<Rightarrow> (Some e, n2)
           | (Inr p, n2) \<Rightarrow>
               (None, webpack_config \<lparr>dirname = d, pkg = p, exec_outcome = ex\<rparr> n2)))"

section \<open>Observations and sample inputs\<close>

text \<open>The elements of an array value; any other value has none.\<close>

fun elems :: "jsval \<Rightarrow> jsval list" where
  "elems (JArr xs) = xs"
| "elems v = []"

text \<open>A scalar is a value that is neither an array nor a plain object.\<close>

fun is_scalar :: "jsval \<Rightarrow> bool" where
  "is_scalar (JArr xs) = False"
| "is_scalar (JObj kvs) = False"
| "is_scalar v = True"

text \<open>
  The entry modules of an \<^verbatim>\<open>entry\<close> field, which the bundler accepts as an array of
  modules, an object of named entry points, or a single module.
\<close>

fun entry_list :: "jsval \<Rightarrow> jsval list" where
  "entry_list (JArr xs) = xs"
| "entry_list (JObj kvs) = map snd kvs"
| "entry_list v = [v]"

text \<open>
  The options object (first constructor argument) of the first plugin of class \<open>c\<close> in a
  plugin list, and the \<^verbatim>\<open>version\<close> option a configuration hands to that plugin.
\<close>

fun plugin_options :: "string \<Rightarrow> jsval list \<Rightarrow> jsval" where
  "plugin_options c [] = JUndefined"
| "plugin_options c (JNew c' args # ps) =
     (if c' = c then (case args of [] \<Rightarrow> JUndefined | a # _ \<Rightarrow> a) else plugin_options c ps)"
| "plugin_options c (p # ps) = plugin_options c ps"

definition plugin_version :: "jsval \<Rightarrow> string \<Rightarrow> jsval" where
  "plugin_version cfg c =
     (case js_get cfg ''plugins'' of
        JArr ps \<Rightarrow> js_get (plugin_options c ps) ''version''
      | _ \<Rightarrow> JUndefined)"

text \<open>
  Two hosts: one inside a git checkout whose head is \<^verbatim>\<open>abcdef1234567890\<close>, one where
  every subprocess fails. A fresh Node process has run no subprocess, read no file and
  made no network call, and starts the module with \<^verbatim>\<open>module.exports\<close> an empty
  object.
\<close>

definition sample_host :: host where
  "sample_host =
     \<lparr>dirname = ''/srv/monod'',
      pkg = JObj [(''name'', JStr ''monod'')],
      exec_outcome = (\<lambda>cmd. if cmd = ''git rev-parse HEAD'' then Inr ''abcdef1234567890''
                             else Inl (Error ''command not found''))\<rparr>"

definition broken_host :: host where
  "broken_host =
     \<lparr>dirname = ''/srv/monod'',
      pkg = JObj [(''name'', JStr ''monod'')],
      exec_outcome = (\<lambda>cmd. Inl (Error ''fatal: not a git repository''))\<rparr>"

definition fresh_node :: "(string \<rightharpoonup> string) \<Rightarrow> node" where
  "fresh_node e = \<lparr>env = e, execs = [], io_log = [], module_exports = JObj []\<rparr>"

text \<open>
  Two module loaders: one where every package is installed and \<^verbatim>\<open>package.json\<close> names
  the project, and one where the module \<open>x\<close> cannot be found.
\<close>

definition installed_modules :: "string \<Rightarrow> error + jsval" where
  "installed_modules m =
     (if m = ''./package.json'' then Inr (JObj [(''name'', JStr ''monod'')]) else Inr (JObj []))"

definition modules_without :: "string \<Rightarrow> string \<Rightarrow> error + jsval" where
  "modules_without x m = (if m = x then Inl (Error ''Cannot find module'') else installed_modules m)"

section \<open>Properties\<close>

subsection \<open>The version lookup\<close>

lemma VERSION_try_cases:
  "VERSION_try h n =
     (if truthy (env n ''SOURCE_VERSION'') then (Inr (the (env n ''SOURCE_VERSION'')), n)
      else if truthy (env n ''SHA'') then (Inr (the (env n ''SHA'')), n)
      else (exec_outcome h ''git rev-parse HEAD'', n\<lparr>execs := execs n @ [''git rev-parse HEAD'']\<rparr>))"
  by (simp add: VERSION_try_def js_or_def truthy_def execSync_def split: option.splits)

lemma VERSION_env [simp]: "env (snd (VERSION h n)) = env n"
  by (simp add: VERSION_def VERSION_try_cases split: sum.splits prod.splits)

lemma VERSION_exports [simp]: "module_exports (snd (VERSION h n)) = module_exports n"
  by (simp add: VERSION_def VERSION_try_cases split: sum.splits prod.splits)

lemma VERSION_execs:
  "execs (snd (VERSION h n)) =
     execs n @ (if truthy (env n ''SOURCE_VERSION'') \<or> truthy (env n ''SHA'') then []
                else [''git rev-parse HEAD''])"
  by (simp add: VERSION_def VERSION_try_cases split: sum.splits prod.splits)

subsection \<open>The module as a whole\<close>

lemma webpack_config_unfold:
  "webpack_config h n =
     (let t = TARGET n; v = fst (VERSION h n); n2 = set_BABEL_ENV t (snd (VERSION h n));
          c = common h v
      in if build_selected t then n2\<lparr>module_exports := merge c (build_overlay h)\<rparr>
         else if dev_selected t then n2\<lparr>module_exports := merge c (dev_overlay h)\<rparr>
         else n2)"
  by (simp add: webpack_config_def Let_def split: prod.splits)

lemma webpack_config_env:
  "env (webpack_config h n) = (env n)(''BABEL_ENV'' \<mapsto> env_string (TARGET n))"
  by (simp add: webpack_config_unfold Let_def set_BABEL_ENV_def)

lemma webpack_config_execs: "execs (webpack_config h n) = execs (snd (VERSION h n))"
  by (simp add: webpack_config_unfold Let_def set_BABEL_ENV_def)

lemma webpack_config_exports:
  "module_exports (webpack_config h n) =
     (if build_selected (TARGET n) then merge (common h (fst (VERSION h n))) (build_overlay h)
      else if dev_selected (TARGET n) then merge (common h (fst (VERSION h n))) (dev_overlay h)
      else module_exports n)"
  by (simp add: webpack_config_unfold Let_def set_BABEL_ENV_def)

lemma VERSION_io [simp]: "io_log (snd (VERSION h n)) = io_log n"
  by (simp add: VERSION_def VERSION_try_cases split: sum.splits prod.splits)

lemma webpack_config_io: "io_log (webpack_config h n) = io_log n"
  by (simp add: webpack_config_unfold Let_def set_BABEL_ENV_def)

lemma webpack_config_base:
  "webpack_config h n =
     (let t = TARGET n;
          (c, n2) = base_config h t (fst (VERSION h n)) (snd (VERSION h n))
      in if build_selected t then n2\<lparr>module_exports := merge c (build_overlay h)\<rparr>
         else if dev_selected t then n2\<lparr>module_exports := merge c (dev_overlay h)\<rparr>
         else n2)"
  by (simp add: webpack_config_unfold base_config_def Let_def)

lemma require_each_io:
  "fst (require_each r ms n) = None \<Longrightarrow>
     io_log (snd (require_each r ms n)) = io_log n @ map FileRead ms"
  by (induction ms arbitrary: n) (auto simp: js_require_def split: sum.splits)

lemma webpack_config_js_io:
  "fst (webpack_config_js r d ex n) = None \<Longrightarrow>
     io_log (snd (webpack_config_js r d ex n))
       = io_log n @ map FileRead (required_packages @ [''./package.json''])"
  using require_each_io [of r required_packages n]
  by (auto simp: webpack_config_js_def js_require_def webpack_config_io
      split: prod.splits option.splits sum.splits)

subsection \<open>Merging\<close>

lemma map_of_merge_fields:
  "map_of (merge_fields a b) k =
     (case map_of a k of
        None \<Rightarrow> None
      | Some v \<Rightarrow> (case map_of b k of None \<Rightarrow> Some v | Some w \<Rightarrow> Some (merge v w)))"
  by (induction a) (auto split: option.splits)

lemma map_of_filter_absent:
  "map_of a k = None \<Longrightarrow> map_of (filter (\<lambda>(k', w). map_of a k' = None) b) k = map_of b k"
  by (induction b) auto

lemma map_of_merged:
  "map_of (merge_fields a b @ filter (\<lambda>(k', w). map_of a k' = None) b) k =
     (case map_of a k of
        None \<Rightarrow> map_of b k
      | Some v \<Rightarrow> (case map_of b k of None \<Rightarrow> Some v | Some w \<Rightarrow> Some (merge v w)))"
  by (simp add: map_add_def map_of_merge_fields map_of_filter_absent split: option.splits)

lemma js_get_merge:
  "js_get (merge (JObj a) (JObj b)) k =
     (case map_of a k of
        None \<Rightarrow> js_get (JObj b) k
      | Some v \<Rightarrow> (case map_of b k of None \<Rightarrow> v | Some w \<Rightarrow> merge v w))"
  by (simp add: map_of_merged del: map_of_append split: option.splits)

lemma merge_scalar: "is_scalar w \<Longrightarrow> merge v w = w"
  by (cases w; cases v) simp_all

lemma merge_general:
  "(map_of B k = Some (JArr bs) \<and> map_of Ov k = Some (JArr os) \<longrightarrow>
      js_get (merge (JObj B) (JObj Ov)) k = JArr (bs @ os))
   \<and> (map_of B k = Some (JObj b') \<and> map_of Ov k = Some (JObj o') \<longrightarrow>
      js_get (merge (JObj B) (JObj Ov)) k = merge (JObj b') (JObj o'))
   \<and> (map_of Ov k = Some w \<and> is_scalar w \<longrightarrow> js_get (merge (JObj B) (JObj Ov)) k = w)
   \<and> (map_of Ov k = None \<longrightarrow> js_get (merge (JObj B) (JObj Ov)) k = js_get (JObj B) k)"
  unfolding js_get_merge by (auto simp: merge_scalar split: option.splits)

lemma common_fields:
  "js_get (common h v) ''entry'' = JObj [(''app'', JStr (app (PATHS h)))]"
  "js_get (js_get (common h v) ''output'') ''filename'' = JStr ''[name].js''"
  "length (elems (js_get (common h v) ''plugins'')) = 2"
  "length (elems (js_get (js_get (common h v) ''module'') ''loaders'')) = 5"
  by (simp_all add: common_def)

lemma dev_merged:
  "js_get (merge (common h v) (dev_overlay h)) ''entry'' = js_get (dev_overlay h) ''entry''"
  "js_get (merge (common h v) (dev_overlay h)) ''devtool'' = JStr ''eval-source-map''"
  "js_get (merge (common h v) (dev_overlay h)) ''plugins'' =
     JArr (elems (js_get (common h v) ''plugins'') @ elems (js_get (dev_overlay h) ''plugins''))"
  "js_get (js_get (merge (common h v) (dev_overlay h)) ''module'') ''loaders'' =
     JArr (elems (js_get (js_get (common h v) ''module'') ''loaders'')
         @ elems (js_get (js_get (dev_overlay h) ''module'') ''loaders''))"
  by (simp_all add: common_def dev_overlay_def)

lemma build_merged:
  "js_get (js_get (merge (common h v) (build_overlay h)) ''output'') ''filename''
     = JStr ''[name].[chunkhash].js''"
  "js_get (js_get (merge (common h v) (build_overlay h)) ''output'') ''chunkFilename''
     = JStr ''[chunkhash].js''"
  "js_get (merge (common h v) (build_overlay h)) ''devtool'' = JStr ''source-map''"
  "js_get (merge (common h v) (build_overlay h)) ''plugins'' =
     JArr (elems (js_get (common h v) ''plugins'') @ elems (js_get (build_overlay h) ''plugins''))"
  "js_get (js_get (merge (common h v) (build_overlay h)) ''module'') ''loaders'' =
     JArr (elems (js_get (js_get (common h v) ''module'') ''loaders'')
         @ elems (js_get (js_get (build_overlay h) ''module'') ''loaders''))"
  by (simp_all add: common_def build_overlay_def)

section \<open>The claims\<close>

text \<open>
  C1, as stated, at an unrecognised target: with \<^verbatim>\<open>npm_lifecycle_event\<close> set to
  \<^verbatim>\<open>test\<close> neither condition holds, no overlay is merged, and \<^verbatim>\<open>module.exports\<close> is
  still the empty object the module started with.
\<close>

theorem overlay_unrecognised_target_counterexample:
  "\<not> dev_selected (Some ''test'') \<and> \<not> build_selected (Some ''test'')
   \<and> module_exports (webpack_config sample_host (fresh_node [''npm_lifecycle_event'' \<mapsto> ''test'']))
       = JObj []"
  by (simp add: webpack_config_exports dev_selected_def build_selected_def truthy_def TARGET_def
      fresh_node_def)

text \<open>
  C1, amended: at most one overlay is merged. The target \<^verbatim>\<open>build\<close> selects the production
  overlay; \<^verbatim>\<open>dev\<close>, an unset target and the empty string select the development overlay;
  the two conditions never hold together; for any other target no overlay is merged and
  \<^verbatim>\<open>module.exports\<close> is left as it was.
\<close>

theorem overlay_selection:
  "(build_selected t \<longleftrightarrow> t = Some ''build'')
   \<and> (dev_selected t \<longleftrightarrow> t = Some ''dev'' \<or> t = None \<or> t = Some [])
   \<and> \<not> (build_selected t \<and> dev_selected t)
   \<and> module_exports (webpack_config h n) =
       (if TARGET n = Some ''build'' then merge (common h (fst (VERSION h n))) (build_overlay h)
        else if TARGET n = Some ''dev'' \<or> TARGET n = None \<or> TARGET n = Some []
          then merge (common h (fst (VERSION h n))) (dev_overlay h)
        else module_exports n)"
  by (auto simp: webpack_config_exports dev_selected_def build_selected_def truthy_def
      split: option.splits)

text \<open>
  C2, as stated, at an override that is set to the empty string: \<^verbatim>\<open>SOURCE_VERSION\<close> is
  set, and the version is the value of \<^verbatim>\<open>SHA\<close>, not the value of \<^verbatim>\<open>SOURCE_VERSION\<close>.
\<close>

theorem VERSION_empty_override_counterexample:
  "env (fresh_node [''SOURCE_VERSION'' \<mapsto> [], ''SHA'' \<mapsto> ''0a1b2c3'']) ''SOURCE_VERSION'' = Some []
   \<and> fst (VERSION sample_host (fresh_node [''SOURCE_VERSION'' \<mapsto> [], ''SHA'' \<mapsto> ''0a1b2c3'']))
       = ''0a1b2c3''"
  by (simp add: VERSION_def VERSION_try_cases truthy_def fresh_node_def)

text \<open>
  C2, amended: when \<^verbatim>\<open>SOURCE_VERSION\<close> is set to a non-empty string the version is exactly
  that string, whatever \<^verbatim>\<open>SHA\<close> and the repository are, and no subprocess runs; when
  \<^verbatim>\<open>SOURCE_VERSION\<close> is unset or empty and \<^verbatim>\<open>SHA\<close> is a non-empty string the version is
  exactly the value of \<^verbatim>\<open>SHA\<close>, and no subprocess runs; when neither is a non-empty string
  the subprocess runs once and decides. The three sources are consulted in that order.
\<close>

theorem VERSION_priority:
  "(env n ''SOURCE_VERSION'' = Some a \<and> a \<noteq> [] \<longrightarrow> VERSION h n = (a, n))
   \<and> (\<not> truthy (env n ''SOURCE_VERSION'') \<and> env n ''SHA'' = Some b \<and> b \<noteq> [] \<longrightarrow>
        VERSION h n = (b, n))
   \<and> (\<not> truthy (env n ''SOURCE_VERSION'') \<and> \<not> truthy (env n ''SHA'') \<longrightarrow>
        VERSION h n =
          (case exec_outcome h ''git rev-parse HEAD'' of Inl e \<Rightarrow> ''unknown'' | Inr v \<Rightarrow> v,
           n\<lparr>execs := execs n @ [''git rev-parse HEAD'']\<rparr>))"
  by (auto simp: VERSION_def VERSION_try_cases truthy_def split: sum.splits)

text \<open>
  The three cases of C2 at concrete environments: both overrides set on a host without a
  repository, only \<^verbatim>\<open>SHA\<close> set there, and neither set inside a checkout.
\<close>

theorem VERSION_priority_witness:
  "VERSION broken_host (fresh_node [''SOURCE_VERSION'' \<mapsto> ''v1.2.3'', ''SHA'' \<mapsto> ''0a1b2c3''])
     = (''v1.2.3'', fresh_node [''SOURCE_VERSION'' \<mapsto> ''v1.2.3'', ''SHA'' \<mapsto> ''0a1b2c3''])
   \<and> VERSION broken_host (fresh_node [''SHA'' \<mapsto> ''0a1b2c3''])
     = (''0a1b2c3'', fresh_node [''SHA'' \<mapsto> ''0a1b2c3''])
   \<and> VERSION sample_host (fresh_node Map.empty)
     = (''abcdef1234567890'', (fresh_node Map.empty)\<lparr>execs := [''git rev-parse HEAD'']\<rparr>)"
  using VERSION_priority [where n = "fresh_node [''SOURCE_VERSION'' \<mapsto> ''v1.2.3'', ''SHA'' \<mapsto> ''0a1b2c3'']"
                  and a = "''v1.2.3''" and h = broken_host]
        VERSION_priority [where n = "fresh_node [''SHA'' \<mapsto> ''0a1b2c3'']" and b = "''0a1b2c3''"
                  and h = broken_host]
        VERSION_priority [where n = "fresh_node Map.empty" and h = sample_host]
  by (simp add: fresh_node_def truthy_def sample_host_def)

text \<open>
  C3: merging an overlay onto a base is a deep merge. A field that is a list on both sides
  is the base's elements followed by the overlay's, nothing dropped and nothing repeated; a
  field that is an object on both sides is merged in the same way, one level down; a scalar
  field of the overlay takes the overlay's value; a field the overlay does not have keeps
  the base's value. For the two merges of the module: the plugin list and the list of module
  rules are those of \<open>common\<close> followed by those of the overlay, and \<^verbatim>\<open>devtool\<close> is the
  overlay's.
\<close>

theorem merge_semantics:
  "(map_of B k = Some (JArr bs) \<and> map_of Ov k = Some (JArr os) \<longrightarrow>
      js_get (merge (JObj B) (JObj Ov)) k = JArr (bs @ os))
   \<and> (map_of B k = Some (JObj b') \<and> map_of Ov k = Some (JObj o') \<longrightarrow>
      js_get (merge (JObj B) (JObj Ov)) k = merge (JObj b') (JObj o'))
   \<and> (map_of Ov k = Some w \<and> is_scalar w \<longrightarrow> js_get (merge (JObj B) (JObj Ov)) k = w)
   \<and> (map_of Ov k = None \<longrightarrow> js_get (merge (JObj B) (JObj Ov)) k = js_get (JObj B) k)
   \<and> js_get (merge (common h v) (dev_overlay h)) ''plugins'' =
       JArr (elems (js_get (common h v) ''plugins'') @ elems (js_get (dev_overlay h) ''plugins''))
   \<and> js_get (js_get (merge (common h v) (dev_overlay h)) ''module'') ''loaders'' =
       JArr (elems (js_get (js_get (common h v) ''module'') ''loaders'')
           @ elems (js_get (js_get (dev_overlay h) ''module'') ''loaders''))
   \<and> js_get (merge (common h v) (dev_overlay h)) ''devtool'' = js_get (dev_overlay h) ''devtool''
   \<and> js_get (merge (common h v) (build_overlay h)) ''plugins'' =
       JArr (elems (js_get (common h v) ''plugins'') @ elems (js_get (build_overlay h) ''plugins''))
   \<and> js_get (js_get (merge (common h v) (build_overlay h)) ''module'') ''loaders'' =
       JArr (elems (js_get (js_get (common h v) ''module'') ''loaders'')
           @ elems (js_get (js_get (build_overlay h) ''module'') ''loaders''))
   \<and> js_get (merge (common h v) (build_overlay h)) ''devtool'' = js_get (build_overlay h) ''devtool''"
proof -
  have dev: "js_get (dev_overlay h) ''devtool'' = JStr ''eval-source-map''"
    by (simp add: dev_overlay_def)
  have bld: "js_get (build_overlay h) ''devtool'' = JStr ''source-map''"
    by (simp add: build_overlay_def)
  show ?thesis
    using merge_general [of B k bs Ov os b' o' w]
    by (simp only: dev_merged build_merged dev bld simp_thms)
qed

text \<open>
  C3 on small objects: a list on both sides, an object on both sides, a scalar of the
  overlay, and a field only the base has.
\<close>

theorem merge_semantics_witness:
  "js_get (merge (JObj [(''plugins'', JArr [JStr ''p1'', JStr ''p2'']), (''devtool'', JStr ''none'')])
             (JObj [(''devtool'', JStr ''eval''), (''plugins'', JArr [JStr ''p3''])])) ''plugins''
     = JArr [JStr ''p1'', JStr ''p2'', JStr ''p3'']
   \<and> js_get (merge (JObj [(''module'', JObj [(''loaders'', JArr [JStr ''r1''])])])
             (JObj [(''module'', JObj [(''loaders'', JArr [JStr ''r2''])])])) ''module''
     = JObj [(''loaders'', JArr [JStr ''r1'', JStr ''r2''])]
   \<and> js_get (merge (JObj [(''plugins'', JArr [JStr ''p1'', JStr ''p2'']), (''devtool'', JStr ''none'')])
             (JObj [(''devtool'', JStr ''eval''), (''plugins'', JArr [JStr ''p3''])])) ''devtool''
     = JStr ''eval''
   \<and> js_get (merge (JObj [(''plugins'', JArr [JStr ''p1'', JStr ''p2'']), (''devtool'', JStr ''none'')])
             (JObj [(''plugins'', JArr [JStr ''p3''])])) ''devtool''
     = JStr ''none''"
  using merge_semantics [where B = "[(''plugins'', JArr [JStr ''p1'', JStr ''p2'']), (''devtool'', JStr ''none'')]"
                  and Ov = "[(''devtool'', JStr ''eval''), (''plugins'', JArr [JStr ''p3''])]"
                  and k = "''plugins''" and bs = "[JStr ''p1'', JStr ''p2'']" and os = "[JStr ''p3'']"]
        merge_semantics [where B = "[(''module'', JObj [(''loaders'', JArr [JStr ''r1''])])]"
                  and Ov = "[(''module'', JObj [(''loaders'', JArr [JStr ''r2''])])]"
                  and k = "''module''" and b' = "[(''loaders'', JArr [JStr ''r1''])]"
                  and o' = "[(''loaders'', JArr [JStr ''r2''])]"]
        merge_semantics [where B = "[(''plugins'', JArr [JStr ''p1'', JStr ''p2'']), (''devtool'', JStr ''none'')]"
                  and Ov = "[(''devtool'', JStr ''eval''), (''plugins'', JArr [JStr ''p3''])]"
                  and k = "''devtool''" and w = "JStr ''eval''"]
        merge_semantics [where B = "[(''plugins'', JArr [JStr ''p1'', JStr ''p2'']), (''devtool'', JStr ''none'')]"
                  and Ov = "[(''plugins'', JArr [JStr ''p3''])]"
                  and k = "''devtool''"]
  by simp

text \<open>
  C4, as stated, on a host where the version lookup succeeds: inside the sample checkout,
  with \<^verbatim>\<open>package.json\<close> missing, the \<^verbatim>\<open>require\<close> of line 15 throws and the evaluation
  of the module ends with that error. The version lookup is not the only failure path of
  the construction.
\<close>

theorem require_failure_counterexample:
  "exec_outcome sample_host ''git rev-parse HEAD'' = Inr ''abcdef1234567890''
   \<and> fst (webpack_config_js (modules_without ''./package.json'') ''/srv/monod''
         (exec_outcome sample_host) (fresh_node Map.empty)) = Some (Error ''Cannot find module'')"
  by (simp add: webpack_config_js_def required_packages_def js_require_def modules_without_def
      installed_modules_def sample_host_def)

text \<open>
  C4, amended: when neither override is set and the subprocess fails, the version lookup
  runs the subprocess once, catches its error and yields the string \<^verbatim>\<open>unknown\<close>, a plain
  value, which is what the plugins are given. Within the version lookup this is the only
  failure path: the body of the \<^verbatim>\<open>try\<close> block fails exactly when neither override is a
  non-empty string and the subprocess fails. The \<^verbatim>\<open>require\<close> calls of lines 2 to 15
  are a failure path of their own: an error of one of them is not caught and ends the
  evaluation of the module.
\<close>

theorem VERSION_unknown_on_failure:
  "(fst (VERSION_try h n) = Inl e \<longleftrightarrow>
      \<not> truthy (env n ''SOURCE_VERSION'') \<and> \<not> truthy (env n ''SHA'')
      \<and> exec_outcome h ''git rev-parse HEAD'' = Inl e)
   \<and> (env n ''SOURCE_VERSION'' = None \<and> env n ''SHA'' = None
      \<and> exec_outcome h ''git rev-parse HEAD'' = Inl e \<longrightarrow>
        VERSION h n = (''unknown'', n\<lparr>execs := execs n @ [''git rev-parse HEAD'']\<rparr>)
        \<and> plugin_version (common h (fst (VERSION h n))) ''HtmlWebpackPlugin'' = JStr ''unknown''
        \<and> plugin_version (common h (fst (VERSION h n))) ''OfflinePlugin'' = JStr ''unknown'')
   \<and> (fst (require_each r required_packages m) = None \<and> r ''./package.json'' = Inl e'
        \<longrightarrow> fst (webpack_config_js r d ex m) = Some e')
   \<and> (fst (require_each r required_packages m) = Some e'
        \<longrightarrow> fst (webpack_config_js r d ex m) = Some e')"
  by (auto simp: VERSION_def VERSION_try_cases truthy_def plugin_version_def common_def
      substring_def webpack_config_js_def js_require_def split: prod.splits option.splits)

text \<open>
  C4 at concrete inputs: a fresh process with an empty environment on a host without a
  repository; a module loader without \<^verbatim>\<open>package.json\<close>; a module loader without the
  package \<^verbatim>\<open>webpack-merge\<close>.
\<close>

theorem VERSION_unknown_on_failure_witness:
  "VERSION broken_host (fresh_node Map.empty)
     = (''unknown'',
        (fresh_node Map.empty)\<lparr>execs := execs (fresh_node Map.empty) @ [''git rev-parse HEAD'']\<rparr>)
   \<and> plugin_version (common broken_host (fst (VERSION broken_host (fresh_node Map.empty))))
       ''HtmlWebpackPlugin'' = JStr ''unknown''
   \<and> plugin_version (common broken_host (fst (VERSION broken_host (fresh_node Map.empty))))
       ''OfflinePlugin'' = JStr ''unknown''
   \<and> fst (webpack_config_js (modules_without ''./package.json'') ''/srv/monod''
         (exec_outcome broken_host) (fresh_node Map.empty)) = Some (Error ''Cannot find module'')
   \<and> fst (webpack_config_js (modules_without ''webpack-merge'') ''/srv/monod''
         (exec_outcome broken_host) (fresh_node Map.empty)) = Some (Error ''Cannot find module'')"
proof -
  have a: "env (fresh_node Map.empty) ''SOURCE_VERSION'' = None
      \<and> env (fresh_node Map.empty) ''SHA'' = None
      \<and> exec_outcome broken_host ''git rev-parse HEAD'' = Inl (Error ''fatal: not a git repository'')"
    by (simp add: fresh_node_def broken_host_def)
  have b: "fst (require_each (modules_without ''./package.json'') required_packages (fresh_node Map.empty))
        = None
      \<and> modules_without ''./package.json'' ''./package.json'' = Inl (Error ''Cannot find module'')"
    by (simp add: required_packages_def js_require_def modules_without_def installed_modules_def)
  have c: "fst (require_each (modules_without ''webpack-merge'') required_packages (fresh_node Map.empty))
      = Some (Error ''Cannot find module'')"
    by (simp add: required_packages_def js_require_def modules_without_def installed_modules_def)
  show ?thesis
    using VERSION_unknown_on_failure
            [where h = broken_host and n = "fresh_node Map.empty"
               and e = "Error ''fatal: not a git repository''",
             THEN conjunct2, THEN conjunct1, THEN mp, OF a]
          VERSION_unknown_on_failure
            [where r = "modules_without ''./package.json''" and m = "fresh_node Map.empty"
               and e' = "Error ''Cannot find module''" and d = "''/srv/monod''"
               and ex = "exec_outcome broken_host",
             THEN conjunct2, THEN conjunct2, THEN conjunct1, THEN mp, OF b]
          VERSION_unknown_on_failure
            [where r = "modules_without ''webpack-merge''" and m = "fresh_node Map.empty"
               and e' = "Error ''Cannot find module''" and d = "''/srv/monod''"
               and ex = "exec_outcome broken_host",
             THEN conjunct2, THEN conjunct2, THEN conjunct2, THEN mp, OF c]
    by blast
qed

text \<open>
  C5: when neither override is set and the subprocess prints \<^verbatim>\<open>abcdef1234567890\<close>, the
  version is that whole string, its first seven characters are \<^verbatim>\<open>abcdef1\<close>, and that is
  the version given to the HTML plugin and to the offline plugin.
\<close>

theorem VERSION_from_git:
  assumes "env n ''SOURCE_VERSION'' = None" and "env n ''SHA'' = None"
    and "exec_outcome h ''git rev-parse HEAD'' = Inr ''abcdef1234567890''"
  shows "fst (VERSION h n) = ''abcdef1234567890''
    \<and> substring (fst (VERSION h n)) 0 7 = ''abcdef1''
    \<and> plugin_version (common h (fst (VERSION h n))) ''HtmlWebpackPlugin'' = JStr ''abcdef1''
    \<and> plugin_version (common h (fst (VERSION h n))) ''OfflinePlugin'' = JStr ''abcdef1''"
  using assms
  by (simp add: VERSION_def VERSION_try_cases truthy_def plugin_version_def common_def
      substring_def)

text \<open>C5 inside the sample checkout, with an empty environment.\<close>

theorem VERSION_from_git_witness:
  "fst (VERSION sample_host (fresh_node Map.empty)) = ''abcdef1234567890''
   \<and> substring (fst (VERSION sample_host (fresh_node Map.empty))) 0 7 = ''abcdef1''
   \<and> plugin_version (common sample_host (fst (VERSION sample_host (fresh_node Map.empty))))
       ''HtmlWebpackPlugin'' = JStr ''abcdef1''
   \<and> plugin_version (common sample_host (fst (VERSION sample_host (fresh_node Map.empty))))
       ''OfflinePlugin'' = JStr ''abcdef1''"
  by (rule VERSION_from_git) (simp_all add: fresh_node_def sample_host_def)

text \<open>
  C6: with the target \<^verbatim>\<open>dev\<close>, and equally with no target, the exported configuration's
  entry list is the three hot-reload entries followed by the entries of \<open>common\<close>, so its
  length is the base's plus three, and \<^verbatim>\<open>devtool\<close> is \<^verbatim>\<open>eval-source-map\<close>; the
  configuration exported with no target is the one exported with \<^verbatim>\<open>dev\<close>.
\<close>

theorem dev_configuration:
  assumes "TARGET n = Some ''dev'' \<or> TARGET n = None"
  shows "js_get (module_exports (webpack_config h n)) ''entry'' =
       JArr ([JStr ''react-hot-loader/patch'',
              JStr ''webpack-dev-server/client?http://localhost:4000'',
              JStr ''webpack/hot/only-dev-server'']
             @ entry_list (js_get (common h (fst (VERSION h n))) ''entry''))
   \<and> length (entry_list (js_get (module_exports (webpack_config h n)) ''entry''))
       = length (entry_list (js_get (common h (fst (VERSION h n))) ''entry'')) + 3
   \<and> js_get (module_exports (webpack_config h n)) ''devtool'' = JStr ''eval-source-map''
   \<and> module_exports (webpack_config h (n\<lparr>env := (env n)(''npm_lifecycle_event'' := None)\<rparr>))
       = module_exports (webpack_config h (n\<lparr>env := (env n)(''npm_lifecycle_event'' \<mapsto> ''dev'')\<rparr>))"
proof -
  have sel: "dev_selected (TARGET n)" "\<not> build_selected (TARGET n)"
    using assms by (auto simp: dev_selected_def build_selected_def truthy_def)
  have ex: "module_exports (webpack_config h n) = merge (common h (fst (VERSION h n))) (dev_overlay h)"
    by (simp add: webpack_config_exports sel)
  have ent: "js_get (dev_overlay h) ''entry'' =
       JArr ([JStr ''react-hot-loader/patch'',
              JStr ''webpack-dev-server/client?http://localhost:4000'',
              JStr ''webpack/hot/only-dev-server'']
             @ entry_list (js_get (common h (fst (VERSION h n))) ''entry''))"
    by (simp add: common_fields dev_overlay_def)
  have same: "fst (VERSION h (n\<lparr>env := (env n)(''npm_lifecycle_event'' := None)\<rparr>))
       = fst (VERSION h (n\<lparr>env := (env n)(''npm_lifecycle_event'' \<mapsto> ''dev'')\<rparr>))"
    by (simp add: VERSION_def VERSION_try_cases split: sum.splits)
  have unset: "module_exports (webpack_config h (n\<lparr>env := (env n)(''npm_lifecycle_event'' := None)\<rparr>))
       = module_exports (webpack_config h (n\<lparr>env := (env n)(''npm_lifecycle_event'' \<mapsto> ''dev'')\<rparr>))"
    by (simp add: webpack_config_exports TARGET_def dev_selected_def build_selected_def truthy_def same)
  show ?thesis
    by (simp add: ex dev_merged ent unset common_fields)
qed

text \<open>C6 in a fresh process inside the sample checkout, without a target and with \<^verbatim>\<open>dev\<close>.\<close>

theorem dev_configuration_witness:
  "js_get (module_exports (webpack_config sample_host (fresh_node Map.empty))) ''devtool''
       = JStr ''eval-source-map''
   \<and> js_get (module_exports (webpack_config sample_host (fresh_node [''npm_lifecycle_event'' \<mapsto> ''dev''])))
       ''devtool'' = JStr ''eval-source-map''
   \<and> length (entry_list (js_get (module_exports (webpack_config sample_host (fresh_node Map.empty)))
       ''entry'')) = 4"
proof -
  have a: "TARGET (fresh_node Map.empty) = Some ''dev'' \<or> TARGET (fresh_node Map.empty) = None"
    by (simp add: TARGET_def fresh_node_def)
  have b: "TARGET (fresh_node [''npm_lifecycle_event'' \<mapsto> ''dev'']) = Some ''dev''
      \<or> TARGET (fresh_node [''npm_lifecycle_event'' \<mapsto> ''dev'']) = None"
    by (simp add: TARGET_def fresh_node_def)
  show ?thesis
    using dev_configuration [OF a, of sample_host] dev_configuration [OF b, of sample_host]
    by (simp add: common_fields)
qed

text \<open>
  C7: with the target \<^verbatim>\<open>build\<close>, the exported configuration's output file name and its
  file name for non-entry chunks both contain the placeholder \<^verbatim>\<open>[chunkhash]\<close>, and its
  plugin list is strictly longer than that of \<open>common\<close> (by the seven plugins of the
  overlay).
\<close>

theorem build_configuration:
  assumes "TARGET n = Some ''build''"
  shows "js_get (js_get (module_exports (webpack_config h n)) ''output'') ''filename''
       = JStr (''[name].'' @ ''[chunkhash]'' @ ''.js'')
   \<and> js_get (js_get (module_exports (webpack_config h n)) ''output'') ''chunkFilename''
       = JStr (''[chunkhash]'' @ ''.js'')
   \<and> length (elems (js_get (common h (fst (VERSION h n))) ''plugins''))
       < length (elems (js_get (module_exports (webpack_config h n)) ''plugins''))
   \<and> length (elems (js_get (module_exports (webpack_config h n)) ''plugins''))
       = length (elems (js_get (common h (fst (VERSION h n))) ''plugins'')) + 7"
proof -
  have ex: "module_exports (webpack_config h n) = merge (common h (fst (VERSION h n))) (build_overlay h)"
    using assms by (simp add: webpack_config_exports build_selected_def)
  have "length (elems (js_get (build_overlay h) ''plugins'')) = 7"
    by (simp add: build_overlay_def)
  then show ?thesis
    by (simp add: ex build_merged)
qed

text \<open>C7 in a fresh process inside the sample checkout, with the target \<^verbatim>\<open>build\<close>.\<close>

theorem build_configuration_witness:
  "js_get (js_get (module_exports
       (webpack_config sample_host (fresh_node [''npm_lifecycle_event'' \<mapsto> ''build''])))
       ''output'') ''filename'' = JStr ''[name].[chunkhash].js''
   \<and> length (elems (js_get (module_exports
       (webpack_config sample_host (fresh_node [''npm_lifecycle_event'' \<mapsto> ''build''])))
       ''plugins'')) = 9"
proof -
  have a: "TARGET (fresh_node [''npm_lifecycle_event'' \<mapsto> ''build'']) = Some ''build''"
    by (simp add: TARGET_def fresh_node_def)
  show ?thesis
    using build_configuration [OF a, of sample_host] by (simp add: common_fields)
qed

text \<open>
  C8, as stated, in a fresh process with the target \<^verbatim>\<open>dev\<close>: the environment has no
  \<^verbatim>\<open>BABEL_ENV\<close> before the base configuration is built (lines 38 to 153) and has
  \<^verbatim>\<open>BABEL_ENV=dev\<close> after, and so it has at the end of the module.
\<close>

theorem BABEL_ENV_written_counterexample:
  "env (fresh_node [''npm_lifecycle_event'' \<mapsto> ''dev'']) ''BABEL_ENV'' = None
   \<and> env (snd (base_config sample_host (TARGET (fresh_node [''npm_lifecycle_event'' \<mapsto> ''dev'']))
        ''abcdef1234567890'' (fresh_node [''npm_lifecycle_event'' \<mapsto> ''dev''])))
       ''BABEL_ENV'' = Some ''dev''
   \<and> env (webpack_config sample_host (fresh_node [''npm_lifecycle_event'' \<mapsto> ''dev''])) ''BABEL_ENV''
       = Some ''dev''"
  by (simp add: webpack_config_env base_config_def set_BABEL_ENV_def TARGET_def env_string_def
      fresh_node_def)

text \<open>
  C8, amended: building the base configuration (lines 38 to 153) has one side effect
  beyond returning the configuration object: it sets the environment variable
  \<^verbatim>\<open>BABEL_ENV\<close> to the target (the string \<^verbatim>\<open>undefined\<close> when there is none). It reads no
  file, makes no network call, runs no subprocess and leaves every other environment
  variable and \<^verbatim>\<open>module.exports\<close> unchanged. These statements are the part of the module
  between the version lookup and the selection of the overlay; in the module as a whole
  the statements after the \<^verbatim>\<open>require\<close> calls read no file and make no network call,
  the only subprocess is the version lookup's, and the file reads of the whole file are
  its \<^verbatim>\<open>require\<close> calls (lines 2 to 15), in their order.
\<close>

theorem base_config_effects:
  "base_config h t v n =
     (common h v,
      n\<lparr>env := (env n)(''BABEL_ENV'' \<mapsto> (case t of None \<Rightarrow> ''undefined'' | Some s \<Rightarrow> s))\<rparr>)
   \<and> io_log (snd (base_config h t v n)) = io_log n
   \<and> execs (snd (base_config h t v n)) = execs n
   \<and> module_exports (snd (base_config h t v n)) = module_exports n
   \<and> (env (snd (base_config h t v n)))(''BABEL_ENV'' := None) = (env n)(''BABEL_ENV'' := None)
   \<and> webpack_config h n =
       (let t = TARGET n;
            (c, n2) = base_config h t (fst (VERSION h n)) (snd (VERSION h n))
        in if build_selected t then n2\<lparr>module_exports := merge c (build_overlay h)\<rparr>
           else if dev_selected t then n2\<lparr>module_exports := merge c (dev_overlay h)\<rparr>
           else n2)
   \<and> io_log (webpack_config h n) = io_log n
   \<and> execs (webpack_config h n) = execs (snd (VERSION h n))
   \<and> env (webpack_config h n)
       = (env n)(''BABEL_ENV'' \<mapsto> (case TARGET n of None \<Rightarrow> ''undefined'' | Some s \<Rightarrow> s))
   \<and> (fst (webpack_config_js r d ex n) = None \<longrightarrow>
        io_log (snd (webpack_config_js r d ex n))
          = io_log n @ map FileRead (required_packages @ [''./package.json'']))"
proof -
  have "base_config h t v n =
     (common h v,
      n\<lparr>env := (env n)(''BABEL_ENV'' \<mapsto> (case t of None \<Rightarrow> ''undefined'' | Some s \<Rightarrow> s))\<rparr>)"
    by (simp add: base_config_def set_BABEL_ENV_def env_string_def)
  moreover have "webpack_config h n =
       (let t = TARGET n;
            (c, n2) = base_config h t (fst (VERSION h n)) (snd (VERSION h n))
        in if build_selected t then n2\<lparr>module_exports := merge c (build_overlay h)\<rparr>
           else if dev_selected t then n2\<lparr>module_exports := merge c (dev_overlay h)\<rparr>
           else n2)"
    by (rule webpack_config_base)
  moreover have "io_log (webpack_config h n) = io_log n"
    by (rule webpack_config_io)
  moreover have "execs (webpack_config h n) = execs (snd (VERSION h n))"
    by (rule webpack_config_execs)
  moreover have "env (webpack_config h n)
       = (env n)(''BABEL_ENV'' \<mapsto> (case TARGET n of None \<Rightarrow> ''undefined'' | Some s \<Rightarrow> s))"
    by (simp add: webpack_config_env env_string_def)
  moreover have "fst (webpack_config_js r d ex n) = None \<longrightarrow>
        io_log (snd (webpack_config_js r d ex n))
          = io_log n @ map FileRead (required_packages @ [''./package.json''])"
    by (simp add: webpack_config_js_io)
  ultimately show ?thesis
    by (simp add: base_config_def set_BABEL_ENV_def)
qed

text \<open>
  C8 in a fresh process where every package is installed: the module is evaluated without
  an error, and the files read are the eight packages and \<^verbatim>\<open>package.json\<close>.
\<close>

theorem base_config_effects_witness:
  "fst (webpack_config_js installed_modules ''/srv/monod'' (exec_outcome sample_host)
         (fresh_node Map.empty)) = None
   \<and> io_log (snd (webpack_config_js installed_modules ''/srv/monod'' (exec_outcome sample_host)
         (fresh_node Map.empty)))
       = io_log (fresh_node Map.empty) @ map FileRead (required_packages @ [''./package.json''])"
proof -
  have a: "fst (webpack_config_js installed_modules ''/srv/monod'' (exec_outcome sample_host)
         (fresh_node Map.empty)) = None"
    by (simp add: webpack_config_js_def required_packages_def js_require_def installed_modules_def)
  show ?thesis
    using a base_config_effects
            [where r = installed_modules and d = "''/srv/monod''" and ex = "exec_outcome sample_host"
               and n = "fresh_node Map.empty"]
    by blast
qed

text \<open>
  C9: an override that is set to the empty string is treated as an unset one. With
  \<^verbatim>\<open>SOURCE_VERSION\<close> empty, and likewise with \<^verbatim>\<open>SHA\<close> empty, the version and the
  subprocesses run are those of the same environment with the variable unset; with
  \<^verbatim>\<open>SOURCE_VERSION\<close> empty the version is what \<^verbatim>\<open>SHA\<close> and then the subprocess give.
\<close>

theorem empty_override_is_unset:
  "fst (VERSION h (n\<lparr>env := (env n)(''SOURCE_VERSION'' \<mapsto> [])\<rparr>))
     = fst (VERSION h (n\<lparr>env := (env n)(''SOURCE_VERSION'' := None)\<rparr>))
   \<and> execs (snd (VERSION h (n\<lparr>env := (env n)(''SOURCE_VERSION'' \<mapsto> [])\<rparr>)))
     = execs (snd (VERSION h (n\<lparr>env := (env n)(''SOURCE_VERSION'' := None)\<rparr>)))
   \<and> fst (VERSION h (n\<lparr>env := (env n)(''SHA'' \<mapsto> [])\<rparr>))
     = fst (VERSION h (n\<lparr>env := (env n)(''SHA'' := None)\<rparr>))
   \<and> execs (snd (VERSION h (n\<lparr>env := (env n)(''SHA'' \<mapsto> [])\<rparr>)))
     = execs (snd (VERSION h (n\<lparr>env := (env n)(''SHA'' := None)\<rparr>)))
   \<and> fst (VERSION h (n\<lparr>env := (env n)(''SOURCE_VERSION'' \<mapsto> [])\<rparr>))
     = (case env n ''SHA'' of
          Some b \<Rightarrow>
            if b \<noteq> [] then b
            else (case exec_outcome h ''git rev-parse HEAD'' of Inl e \<Rightarrow> ''unknown'' | Inr v \<Rightarrow> v)
        | None \<Rightarrow> (case exec_outcome h ''git rev-parse HEAD'' of Inl e \<Rightarrow> ''unknown'' | Inr v \<Rightarrow> v))"
  by (simp add: VERSION_def VERSION_try_cases truthy_def split: sum.splits option.splits)

text \<open>
  C10, as stated, at a short override: with \<^verbatim>\<open>SOURCE_VERSION\<close> set to \<^verbatim>\<open>v1\<close> both
  plugins are given \<^verbatim>\<open>v1\<close>, which has two characters, not seven.
\<close>

theorem short_version_counterexample:
  "plugin_version (common sample_host (fst (VERSION sample_host (fresh_node [''SOURCE_VERSION'' \<mapsto> ''v1'']))))
       ''HtmlWebpackPlugin'' = JStr ''v1''
   \<and> plugin_version (common sample_host (fst (VERSION sample_host (fresh_node [''SOURCE_VERSION'' \<mapsto> ''v1'']))))
       ''OfflinePlugin'' = JStr ''v1''
   \<and> length ''v1'' \<noteq> 7"
  by (simp add: VERSION_def VERSION_try_cases truthy_def fresh_node_def plugin_version_def
      common_def substring_def)

text \<open>
  C10, amended: evaluating the module computes the version once, so it runs the subprocess
  at most once (exactly once when neither override is a non-empty string, never
  otherwise), and the HTML plugin and the offline plugin of the one configuration object
  are given the same value: the first seven characters of the version, which is the whole
  version when that is shorter.
\<close>

theorem version_computed_once:
  "execs (webpack_config h n) =
     execs n @ (if truthy (env n ''SOURCE_VERSION'') \<or> truthy (env n ''SHA'') then []
                else [''git rev-parse HEAD''])
   \<and> length (execs (webpack_config h n)) \<le> length (execs n) + 1
   \<and> plugin_version (common h (fst (VERSION h n))) ''HtmlWebpackPlugin''
       = JStr (take 7 (fst (VERSION h n)))
   \<and> plugin_version (common h (fst (VERSION h n))) ''OfflinePlugin''
       = JStr (take 7 (fst (VERSION h n)))
   \<and> length (take 7 (fst (VERSION h n))) = min 7 (length (fst (VERSION h n)))"
  by (simp add: webpack_config_execs VERSION_execs plugin_version_def common_def substring_def
      min_def)

end
